theory Spec2Isabelle
  imports Main
begin

section \<open>JavaScript values\<close>

text \<open>
  The handlers pass JSON-like values around: the members of a request body, token
  payloads, the principal attached to a request and response bodies. A value that is
  \<open>undefined\<close> in the source is \<open>JUndefined\<close>; reading a property that an object
  does not have gives it too. The handlers test numbers for truthiness and type only, so
  the integers stand for all of them.
\<close>

datatype jsval =
    JUndefined
  | JNull
  | JBool bool
  | JNum int
  | JStr string
  | JArr "jsval list"
  | JObj "(string \<times> jsval) list"

text \<open>The truthiness test behind \<open>!x\<close>, \<open>x || y\<close> and \<open>if (x)\<close>.\<close>

fun truthy :: "jsval \<Rightarrow> bool" where
  "truthy JUndefined = False"
| "truthy JNull = False"
| "truthy (JBool b) = b"
| "truthy (JNum n) = (n \<noteq> 0)"
| "truthy (JStr s) = (s \<noteq> [])"
| "truthy (JArr vs) = True"
| "truthy (JObj kvs) = True"

text \<open>The operator \<open>!\<close>.\<close>

definition js_not :: "jsval \<Rightarrow> bool" where
  "js_not v = (\<not> truthy v)"

text \<open>
  Property access \<open>v.k\<close> on a value that is neither \<open>null\<close> nor \<open>undefined\<close>
  (every use below is behind a truthiness test or on a freshly built object).
\<close>

fun get :: "jsval \<Rightarrow> string \<Rightarrow> jsval" where
  "get (JObj kvs) k = (case map_of kvs k of None \<Rightarrow> JUndefined | Some v \<Rightarrow> v)"
| "get v k = JUndefined"

text \<open>
  A cookie is a string, or absent: \<open>!x\<close> holds when it is absent or the empty string.
\<close>

definition falsy :: "string option \<Rightarrow> bool" where
  "falsy v = (case v of None \<Rightarrow> True | Some s \<Rightarrow> s = [])"

text \<open>The characters of a value that is a string.\<close>

fun string_of :: "jsval \<Rightarrow> string" where
  "string_of (JStr s) = s"
| "string_of v = []"

section \<open>Requests, responses and middleware\<close>

text \<open>
  \<open>cookies\<close> is what cookie-parser leaves in \<open>req.cookies\<close> (\<open>None\<close> when the
  property is undefined), \<open>body\<close> the members of the object that \<open>express.json()\<close>
  leaves in \<open>req.body\<close> (any JSON values; none when the request has no JSON body), and
  \<open>user\<close> the principal that a gate attaches (\<open>req.user\<close>, undefined on arrival).
\<close>

record request =
  cookies :: "(string \<times> string) list option"
  body :: "(string \<times> jsval) list"
  user :: jsval

text \<open>\<open>const { k } = req.body\<close>\<close>

definition body_field :: "request \<Rightarrow> string \<Rightarrow> jsval" where
  "body_field req k = get (JObj (body req)) k"

text \<open>A number of the configuration: finite, or \<open>NaN\<close>.\<close>

datatype js_number = Finite int | NaN

record cookie_options =
  httpOnly :: bool
  secure :: bool
  sameSite :: string
  maxAge :: js_number
  path :: string

text \<open>
  \<open>res.cookie(name, value, options)\<close> and \<open>res.clearCookie(name, {path})\<close>, in the
  order the handler issues them.
\<close>

datatype cookie_op =
    SetCookie string string cookie_options
  | ClearCookie string string

record response =
  status :: nat
  json :: jsval
  set_cookie :: "cookie_op list"

text \<open>
  A middleware either calls \<open>next()\<close>, handing the (possibly extended) request on, or
  sends the response itself and ends the request.
\<close>

datatype outcome = Next request | Sent response

definition error_json :: "string \<Rightarrow> jsval" where
  "error_json msg = JObj [(''error'', JStr msg)]"

definition chain :: "(request \<Rightarrow> outcome) \<Rightarrow> (request \<Rightarrow> outcome) \<Rightarrow> request \<Rightarrow> outcome" where
  "chain g h req = (case g req of Next req' \<Rightarrow> h req' | Sent r \<Rightarrow> Sent r)"

section \<open>Configuration and libraries\<close>

text \<open>
  The modules read their configuration from \<open>process.env\<close> when they are loaded:
  \<^verbatim>\<open>
  const COOKIE_NAME = process.env.COOKIE_NAME || 'session';
  const SESSION_SECRET = process.env.SESSION_SECRET || 'dev_secret';
  const COOKIE_MAX_AGE = Number(process.env.COOKIE_MAX_AGE || 24 * 60 * 60 * 1000);
  \<close>
  \<open>env_COOKIE_MAX_AGE\<close> holds what \<open>Number\<close> makes of a non-empty variable:
  \<open>NaN\<close> when it is not numeric.
\<close>

record process_env =
  env_NODE_ENV :: "string option"
  env_COOKIE_NAME :: "string option"
  env_SESSION_SECRET :: "string option"
  env_COOKIE_MAX_AGE :: "js_number option"

definition or_default :: "string option \<Rightarrow> string \<Rightarrow> string" where
  "or_default v d = (case v of None \<Rightarrow> d | Some s \<Rightarrow> if s = [] then d else s)"

definition COOKIE_NAME :: "process_env \<Rightarrow> string" where
  "COOKIE_NAME e = or_default (env_COOKIE_NAME e) ''session''"

definition SESSION_SECRET :: "process_env \<Rightarrow> string" where
  "SESSION_SECRET e = or_default (env_SESSION_SECRET e) ''dev_secret''"

definition COOKIE_MAX_AGE :: "process_env \<Rightarrow> js_number" where
  "COOKIE_MAX_AGE e =
     (case env_COOKIE_MAX_AGE e of None \<Rightarrow> Finite (24 * 60 * 60 * 1000) | Some n \<Rightarrow> n)"

text \<open>
  The functions of jsonwebtoken, bcryptjs, mongoose and of JavaScript's strings are
  parameters, so that what is proved of the handlers holds for every behaviour of theirs:
  \<^item> \<open>jwt_verify\<close> gives \<open>None\<close> where \<open>jwt.verify\<close> throws (malformed token,
    wrong signature, expired);
  \<^item> \<open>bcrypt_hash\<close> and \<open>bcrypt_compare\<close> are \<open>bcrypt.hash\<close> and
    \<open>bcrypt.compare\<close> on strings (on any other argument both reject, which the
    handlers below write out);
  \<^item> \<open>castObjectId\<close> and \<open>castString\<close> are mongoose's casts of a value to an
    ObjectId and of a value that is not a string to a String path, \<open>None\<close> where the
    cast fails;
  \<^item> \<open>castFilter\<close> is what a query makes of a filter value that is not a string: the
    test it puts to the stored value, \<open>None\<close> where casting the filter throws;
  \<^item> \<open>toLowerCase\<close> and \<open>trim\<close> are the methods of \<open>String.prototype\<close>.
\<close>

record libs =
  jwt_sign :: "jsval \<Rightarrow> string \<Rightarrow> string"
  jwt_verify :: "string \<Rightarrow> string \<Rightarrow> jsval option"
  bcrypt_hash :: "string \<Rightarrow> string \<Rightarrow> string"
  bcrypt_compare :: "string \<Rightarrow> string \<Rightarrow> bool"
  castObjectId :: "jsval \<Rightarrow> string option"
  castString :: "jsval \<Rightarrow> jsval option"
  castFilter :: "jsval \<Rightarrow> (jsval \<Rightarrow> bool) option"
  toLowerCase :: "string \<Rightarrow> string"
  trim :: "string \<Rightarrow> string"

section \<open>models/User.js: the account collection\<close>

text \<open>
  \<^verbatim>\<open>
  const UserSchema = new mongoose.Schema({
    email: { type: String, required: true, unique: true, lowercase: true, trim: true },
    username: { type: String, required: true },
    passwordHash: { type: String, required: true }, // bcrypt hash
    mobile: { type: String },
    role: { type: String, enum: ["user", "admin"], default: "user" },
    company: { type: mongoose.Schema.Types.ObjectId, ref: "Company", required: true, index: true },
    createdAt: { type: Date, default: Date.now },
  });
  \<close>
  An account document is a JavaScript object; the collection is the list of stored
  documents. \<open>online\<close> is false while the store cannot be reached, and every query
  then throws.
\<close>

record db =
  users :: "jsval list"
  online :: bool

datatype store_error = StoreUnavailable | CastError | ValidationError | DuplicateKey

text \<open>
  Setting a String path to \<open>v\<close>: a string is kept, any other value is cast; \<open>None\<close>
  when the cast fails. The email goes through the setters \<open>lowercase\<close> and \<open>trim\<close>.
\<close>

definition set_String :: "libs \<Rightarrow> jsval \<Rightarrow> jsval option" where
  "set_String L v = (case v of JStr s \<Rightarrow> Some (JStr s) | _ \<Rightarrow> castString L v)"

definition email_setters :: "libs \<Rightarrow> jsval \<Rightarrow> jsval" where
  "email_setters L v = (case v of JStr s \<Rightarrow> JStr (toLowerCase L (trim L s)) | _ \<Rightarrow> v)"

text \<open>
  The part of the new document that a path contributes: nothing when the constructor's
  argument does not set it or when its cast fails (the failure is kept for validation).
\<close>

definition String_path :: "libs \<Rightarrow> jsval \<Rightarrow> string \<Rightarrow> (string \<times> jsval) list" where
  "String_path L obj k =
     (if get obj k = JUndefined then []
      else case set_String L (get obj k) of None \<Rightarrow> [] | Some c \<Rightarrow> [(k, c)])"

definition email_path :: "libs \<Rightarrow> jsval \<Rightarrow> (string \<times> jsval) list" where
  "email_path L obj =
     (if get obj ''email'' = JUndefined then []
      else case set_String L (get obj ''email'') of
             None \<Rightarrow> [] | Some c \<Rightarrow> [(''email'', email_setters L c)])"

definition role_path :: "libs \<Rightarrow> jsval \<Rightarrow> (string \<times> jsval) list" where
  "role_path L obj =
     (if get obj ''role'' = JUndefined then [(''role'', JStr ''user'')]
      else case set_String L (get obj ''role'') of
             None \<Rightarrow> [(''role'', JStr ''user'')] | Some c \<Rightarrow> [(''role'', c)])"

definition ObjectId_path :: "libs \<Rightarrow> jsval \<Rightarrow> string \<Rightarrow> (string \<times> jsval) list" where
  "ObjectId_path L obj k =
     (if get obj k = JUndefined then []
      else case castObjectId L (get obj k) of None \<Rightarrow> [] | Some i \<Rightarrow> [(k, JStr i)])"

definition cast_fails :: "libs \<Rightarrow> jsval \<Rightarrow> bool" where
  "cast_fails L obj =
     ((get obj ''email'' \<noteq> JUndefined \<and> set_String L (get obj ''email'') = None)
      \<or> (get obj ''username'' \<noteq> JUndefined \<and> set_String L (get obj ''username'') = None)
      \<or> (get obj ''passwordHash'' \<noteq> JUndefined
          \<and> set_String L (get obj ''passwordHash'') = None)
      \<or> (get obj ''mobile'' \<noteq> JUndefined \<and> set_String L (get obj ''mobile'') = None)
      \<or> (get obj ''role'' \<noteq> JUndefined \<and> set_String L (get obj ''role'') = None)
      \<or> (get obj ''company'' \<noteq> JUndefined \<and> castObjectId L (get obj ''company'') = None))"

text \<open>
  \<open>new User(obj)\<close>: the paths of the schema that \<open>obj\<close> sets, the defaults of
  \<open>role\<close> and \<open>createdAt\<close>, and under \<open>$__\<close> the mark of a failed cast, which
  mongoose keeps in the document's internal state until validation. The fresh \<open>_id\<close>
  and the clock are arguments.
\<close>

definition new_User :: "libs \<Rightarrow> string \<Rightarrow> int \<Rightarrow> jsval \<Rightarrow> jsval" where
  "new_User L oid now obj =
     JObj ([(''_id'', JStr oid)]
           @ email_path L obj
           @ String_path L obj ''username''
           @ String_path L obj ''passwordHash''
           @ String_path L obj ''mobile''
           @ role_path L obj
           @ ObjectId_path L obj ''company''
           @ [(''createdAt'', JNum now)]
           @ (if cast_fails L obj then [(''$__'', JStr ''CastError'')] else []))"

text \<open>
  The validators that \<open>save()\<close> runs: a failed cast, \<open>required\<close> and \<open>enum\<close>.
\<close>

definition required_string :: "jsval \<Rightarrow> string \<Rightarrow> bool" where
  "required_string doc k = (case get doc k of JStr s \<Rightarrow> s \<noteq> [] | _ \<Rightarrow> False)"

definition validate :: "jsval \<Rightarrow> bool" where
  "validate doc =
     (get doc ''$__'' = JUndefined
      \<and> required_string doc ''email''
      \<and> required_string doc ''username''
      \<and> required_string doc ''passwordHash''
      \<and> (get doc ''role'' = JStr ''user'' \<or> get doc ''role'' = JStr ''admin'')
      \<and> get doc ''company'' \<noteq> JUndefined \<and> get doc ''company'' \<noteq> JNull)"

definition save :: "db \<Rightarrow> jsval \<Rightarrow> store_error + db" where
  "save d doc =
     (if \<not> validate doc then Inl ValidationError
      else if \<not> online d then Inl StoreUnavailable
      else if find (\<lambda>u. get u ''email'' = get doc ''email'') (users d) \<noteq> None
        then Inl DuplicateKey
      else Inr (d\<lparr>users := users d @ [doc]\<rparr>))"

text \<open>
  \<open>User.findOne({ email })\<close>: a string goes through the path's setters and is compared
  with the stored email; any other value is the query's to interpret.
\<close>

definition email_filter :: "libs \<Rightarrow> jsval \<Rightarrow> (jsval \<Rightarrow> bool) option" where
  "email_filter L v =
     (case v of
        JStr s \<Rightarrow> Some (\<lambda>x. x = JStr (toLowerCase L (trim L s)))
      | _ \<Rightarrow> castFilter L v)"

definition findOne_email :: "libs \<Rightarrow> db \<Rightarrow> jsval \<Rightarrow> store_error + jsval option" where
  "findOne_email L d v =
     (case email_filter L v of
        None \<Rightarrow> Inl CastError
      | Some matches \<Rightarrow>
          if online d then Inr (find (\<lambda>u. matches (get u ''email'')) (users d))
          else Inl StoreUnavailable)"

text \<open>
  \<open>User.findById(id)\<close>: an undefined or null id matches no document, any other id is
  cast to an ObjectId first.
\<close>

definition findById :: "libs \<Rightarrow> db \<Rightarrow> jsval \<Rightarrow> store_error + jsval option" where
  "findById L d i =
     (if i = JUndefined \<or> i = JNull then
        (if online d then Inr None else Inl StoreUnavailable)
      else case castObjectId L i of
             None \<Rightarrow> Inl CastError
           | Some s \<Rightarrow>
               if online d then Inr (find (\<lambda>u. get u ''_id'' = JStr s) (users d))
               else Inl StoreUnavailable)"

text \<open>\<open>.select('-passwordHash').lean()\<close>: the plain object without that field.\<close>

fun select_minus :: "string \<Rightarrow> jsval \<Rightarrow> jsval" where
  "select_minus k (JObj kvs) = JObj (filter (\<lambda>kv. fst kv \<noteq> k) kvs)"
| "select_minus k v = v"

section \<open>middleware/auth.js: the authentication gate\<close>

text \<open>\<open>const token = req.cookies && req.cookies[COOKIE_NAME];\<close>\<close>

definition session_token :: "process_env \<Rightarrow> request \<Rightarrow> string option" where
  "session_token e req =
     (case cookies req of None \<Rightarrow> None | Some cs \<Rightarrow> map_of cs (COOKIE_NAME e))"

definition str_of :: "string option \<Rightarrow> string" where
  "str_of v = (case v of None \<Rightarrow> [] | Some s \<Rightarrow> s)"

text \<open>
  \<^verbatim>\<open>
  async function requireAuth(req, res, next) {
    try {
      const token = req.cookies && req.cookies[COOKIE_NAME];
      if (!token) {
        return res.status(401).json({ error: 'Not authenticated' });
      }
      let payload;
      try {
        payload = jwt.verify(token, SESSION_SECRET);
      } catch (err) {
        res.clearCookie(COOKIE_NAME, { path: '/' });
        return res.status(401).json({ error: 'Invalid or expired session' });
      }
      if (!payload || !payload.uid) {
        res.clearCookie(COOKIE_NAME, { path: '/' });
        return res.status(401).json({ error: 'Invalid session payload' });
      }
      const user = await User.findById(payload.uid).select('-passwordHash').lean();
      if (!user) {
        res.clearCookie(COOKIE_NAME, { path: '/' });
        return res.status(401).json({ error: 'Session user not found' });
      }
      req.user = user;
      return next();
    } catch (err) {
      return res.status(401).json({ error: 'Authentication error' });
    }
  }
  \<close>
\<close>

definition requireAuth :: "libs \<Rightarrow> process_env \<Rightarrow> db \<Rightarrow> request \<Rightarrow> outcome" where
  "requireAuth L e d req =
     (let token = session_token e req in
      if falsy token then
        Sent \<lparr>status = 401, json = error_json ''Not authenticated'', set_cookie = []\<rparr>
      else
        case jwt_verify L (str_of token) (SESSION_SECRET e) of
          None \<Rightarrow>
            Sent \<lparr>status = 401, json = error_json ''Invalid or expired session'',
                  set_cookie = [ClearCookie (COOKIE_NAME e) ''/'']\<rparr>
        | Some payload \<Rightarrow>
            if \<not> truthy payload \<or> \<not> truthy (get payload ''uid'') then
              Sent \<lparr>status = 401, json = error_json ''Invalid session payload'',
                    set_cookie = [ClearCookie (COOKIE_NAME e) ''/'']\<rparr>
            else
              (case findById L d (get payload ''uid'') of
                 Inl err \<Rightarrow>
                   Sent \<lparr>status = 401, json = error_json ''Authentication error'',
                         set_cookie = []\<rparr>
               | Inr None \<Rightarrow>
                   Sent \<lparr>status = 401, json = error_json ''Session user not found'',
                         set_cookie = [ClearCookie (COOKIE_NAME e) ''/'']\<rparr>
               | Inr (Some u) \<Rightarrow> Next (req\<lparr>user := select_minus ''passwordHash'' u\<rparr>)))"

section \<open>middleware/auth.js: the role gate\<close>

text \<open>
  \<^verbatim>\<open>
  function requireRole(role) {
    return (req, res, next) => {
      if (!req.user) return res.status(401).json({ error: 'Not authenticated' });
      if (req.user.role !== role) return res.status(403).json({ error: 'Forbidden' });
      next();
    };
  }
  \<close>
\<close>

definition requireRole :: "string \<Rightarrow> request \<Rightarrow> outcome" where
  "requireRole r req =
     (if \<not> truthy (user req) then
        Sent \<lparr>status = 401, json = error_json ''Not authenticated'', set_cookie = []\<rparr>
      else if get (user req) ''role'' \<noteq> JStr r then
        Sent \<lparr>status = 403, json = error_json ''Forbidden'', set_cookie = []\<rparr>
      else Next req)"

section \<open>routes/auth.js: the auth endpoints\<close>

text \<open>
  \<^verbatim>\<open>
  function cookieOptions() {
    const isProd = process.env.NODE_ENV === 'production';
    return { httpOnly: true, secure: isProd, sameSite: isProd ? 'None' : 'Lax',
             maxAge: COOKIE_MAX_AGE, path: '/' };
  }
  \<close>
\<close>

definition cookieOptions :: "process_env \<Rightarrow> cookie_options" where
  "cookieOptions e =
     (let isProd = (env_NODE_ENV e = Some ''production'') in
      \<lparr>httpOnly = True, secure = isProd,
       sameSite = (if isProd then ''None'' else ''Lax''),
       maxAge = COOKIE_MAX_AGE e, path = ''/''\<rparr>)"

definition server_error :: response where
  "server_error = \<lparr>status = 500, json = error_json ''Server error'', set_cookie = []\<rparr>"

text \<open>
  POST /auth/signup. The salt of \<open>bcrypt.genSalt(10)\<close>, the fresh \<open>_id\<close> and the clock
  are arguments; the handler returns its response and the collection it leaves.
  \<^verbatim>\<open>
  const { email, username, password, mobile } = req.body;
  if (!email || !username || !password || !mobile)
    return res.status(400).json({ error: 'Missing fields' });
  const existing = await User.findOne({ email });
  if (existing) return res.status(400).json({ error: 'Email already in use' });
  const salt = await bcrypt.genSalt(10);
  const passwordHash = await bcrypt.hash(password, salt);
  const user = new User({ email, username, passwordHash, mobile });
  await user.save();
  const userSafe = { id: user._id, email: user.email, username: user.username,
                     role: user.role, mobile: user.mobile };
  return res.status(201).json({ user: userSafe });
  // catch (err): return res.status(500).json({ error: 'Server error' });
  \<close>
  \<open>bcrypt.hash\<close> rejects a password that is not a string, which the handler catches;
  \<open>signup_user\<close> is the document that the handler builds once it has the hash.
\<close>

definition signup_user :: "libs \<Rightarrow> string \<Rightarrow> string \<Rightarrow> int \<Rightarrow> request \<Rightarrow> jsval" where
  "signup_user L salt oid now req =
     (let email = body_field req ''email'';
          username = body_field req ''username'';
          password = body_field req ''password'';
          mobile = body_field req ''mobile'';
          passwordHash = bcrypt_hash L (string_of password) salt
      in new_User L oid now
           (JObj [(''email'', email), (''username'', username),
                  (''passwordHash'', JStr passwordHash), (''mobile'', mobile)]))"

definition signup :: "libs \<Rightarrow> db \<Rightarrow> string \<Rightarrow> string \<Rightarrow> int \<Rightarrow> request \<Rightarrow> response \<times> db" where
  "signup L d salt oid now req =
     (let email = body_field req ''email'';
          username = body_field req ''username'';
          password = body_field req ''password'';
          mobile = body_field req ''mobile''
      in
      if js_not email \<or> js_not username \<or> js_not password \<or> js_not mobile then
        (\<lparr>status = 400, json = error_json ''Missing fields'', set_cookie = []\<rparr>, d)
      else
        case findOne_email L d email of
          Inl err \<Rightarrow> (server_error, d)
        | Inr (Some existing) \<Rightarrow>
            (\<lparr>status = 400, json = error_json ''Email already in use'', set_cookie = []\<rparr>, d)
        | Inr None \<Rightarrow>
            (case password of
               JStr pw \<Rightarrow>
                 (let new_user = signup_user L salt oid now req in
                  case save d new_user of
                    Inl err \<Rightarrow> (server_error, d)
                  | Inr d' \<Rightarrow>
                      (\<lparr>status = 201,
                        json = JObj [(''user'',
                          JObj [(''id'', get new_user ''_id''),
                                (''email'', get new_user ''email''),
                                (''username'', get new_user ''username''),
                                (''role'', get new_user ''role''),
                                (''mobile'', get new_user ''mobile'')])],
                        set_cookie = []\<rparr>, d'))
             | _ \<Rightarrow> (server_error, d)))"

text \<open>
  POST /auth/login.
  \<^verbatim>\<open>
  const { email, password } = req.body;
  if (!email || !password) return res.status(400).json({ error: 'Missing fields' });
  const user = await User.findOne({ email });
  if (!user) return res.status(401).json({ error: 'Invalid credentials' });
  const valid = await bcrypt.compare(password, user.passwordHash);
  if (!valid) return res.status(401).json({ error: 'Invalid credentials' });
  const token = jwt.sign({ uid: user._id, role: user.role, username: user.username },
                         SESSION_SECRET, { expiresIn: '24h' });
  res.cookie(COOKIE_NAME, token, cookieOptions());
  const userSafe = { id: user._id, email: user.email, username: user.username, role: user.role };
  return res.json({ user: userSafe });
  // catch (err): return res.status(500).json({ error: 'Server error' });
  \<close>
  \<open>bcrypt.compare\<close> rejects a password or a hash that is not a string, and
  \<open>res.cookie\<close> throws on a \<open>maxAge\<close> that is \<open>NaN\<close>; the handler catches both.
\<close>

definition login :: "libs \<Rightarrow> process_env \<Rightarrow> db \<Rightarrow> request \<Rightarrow> response" where
  "login L e d req =
     (let email = body_field req ''email'';
          password = body_field req ''password''
      in
      if js_not email \<or> js_not password then
        \<lparr>status = 400, json = error_json ''Missing fields'', set_cookie = []\<rparr>
      else
        case findOne_email L d email of
          Inl err \<Rightarrow> server_error
        | Inr None \<Rightarrow>
            \<lparr>status = 401, json = error_json ''Invalid credentials'', set_cookie = []\<rparr>
        | Inr (Some u) \<Rightarrow>
            (case password of
               JStr pw \<Rightarrow>
                 (case get u ''passwordHash'' of
                    JStr h \<Rightarrow>
                      if \<not> bcrypt_compare L pw h then
                        \<lparr>status = 401, json = error_json ''Invalid credentials'',
                         set_cookie = []\<rparr>
                      else
                        (let token =
                           jwt_sign L
                             (JObj [(''uid'', get u ''_id''), (''role'', get u ''role''),
                                    (''username'', get u ''username'')])
                             (SESSION_SECRET e)
                         in if maxAge (cookieOptions e) = NaN then server_error
                            else
                              \<lparr>status = 200,
                               json = JObj [(''user'',
                                 JObj [(''id'', get u ''_id''), (''email'', get u ''email''),
                                       (''username'', get u ''username''),
                                       (''role'', get u ''role'')])],
                               set_cookie =
                                 [SetCookie (COOKIE_NAME e) token (cookieOptions e)]\<rparr>)
                  | _ \<Rightarrow> server_error)
             | _ \<Rightarrow> server_error))"

text \<open>
  POST /auth/logout, in routes/auth.js and, registered before it, in app.js:
  \<^verbatim>\<open>
  res.clearCookie(COOKIE_NAME, { path: '/' });
  return res.json({ ok: true });
  \<close>
\<close>

definition logout :: "process_env \<Rightarrow> request \<Rightarrow> response" where
  "logout e req =
     \<lparr>status = 200, json = JObj [(''ok'', JBool True)],
      set_cookie = [ClearCookie (COOKIE_NAME e) ''/'']\<rparr>"

definition app_logout :: "process_env \<Rightarrow> request \<Rightarrow> response" where
  "app_logout e req =
     \<lparr>status = 200, json = JObj [(''ok'', JBool True)],
      set_cookie = [ClearCookie (COOKIE_NAME e) ''/'']\<rparr>"

text \<open>
  GET /auth/me.
  \<^verbatim>\<open>
  try {
    const token = req.cookies[COOKIE_NAME];
    if (!token) return res.json({ user: null });
    const payload = jwt.verify(token, SESSION_SECRET);
    const user = await User.findById(payload.uid).select('-passwordHash').lean();
    if (!user) {
      res.clearCookie(COOKIE_NAME, { path: '/' });
      return res.json({ user: null });
    }
    return res.json({ user });
  } catch (err) {
    res.clearCookie(COOKIE_NAME, { path: '/' });
    return res.json({ user: null });
  }
  \<close>
  Reading a property of an undefined \<open>req.cookies\<close> or of a null payload throws, and
  lands in the catch block as the faults of \<open>jwt.verify\<close> and of the store do.
\<close>

definition me_caught :: "process_env \<Rightarrow> response" where
  "me_caught e =
     \<lparr>status = 200, json = JObj [(''user'', JNull)],
      set_cookie = [ClearCookie (COOKIE_NAME e) ''/'']\<rparr>"

definition me :: "libs \<Rightarrow> process_env \<Rightarrow> db \<Rightarrow> request \<Rightarrow> response" where
  "me L e d req =
     (case cookies req of
        None \<Rightarrow> me_caught e
      | Some cs \<Rightarrow>
          (let token = map_of cs (COOKIE_NAME e) in
           if falsy token then
             \<lparr>status = 200, json = JObj [(''user'', JNull)], set_cookie = []\<rparr>
           else
             case jwt_verify L (str_of token) (SESSION_SECRET e) of
               None \<Rightarrow> me_caught e
             | Some payload \<Rightarrow>
                 if payload = JUndefined \<or> payload = JNull then me_caught e
                 else
                   (case findById L d (get payload ''uid'') of
                      Inl err \<Rightarrow> me_caught e
                    | Inr None \<Rightarrow>
                        \<lparr>status = 200, json = JObj [(''user'', JNull)],
                         set_cookie = [ClearCookie (COOKIE_NAME e) ''/'']\<rparr>
                    | Inr (Some u) \<Rightarrow>
                        \<lparr>status = 200,
                         json = JObj [(''user'', select_minus ''passwordHash'' u)],
                         set_cookie = []\<rparr>)))"

section \<open>app.js: the inline gate and the mounting of the routers\<close>

text \<open>
  \<^verbatim>\<open>
  function requireAuth(req, res, next) {
    try {
      const token = req.cookies[COOKIE_NAME];
      if (!token) return res.status(401).json({ error: "Not authenticated" });
      const payload = jwt.verify(token, SESSION_SECRET);
      req.user = payload;
      next();
    } catch (err) {
      return res.status(401).json({ error: "Invalid or expired session" });
    }
  }
  \<close>
\<close>

definition app_requireAuth :: "libs \<Rightarrow> process_env \<Rightarrow> request \<Rightarrow> outcome" where
  "app_requireAuth L e req =
     (case cookies req of
        None \<Rightarrow>
          Sent \<lparr>status = 401, json = error_json ''Invalid or expired session'',
                set_cookie = []\<rparr>
      | Some cs \<Rightarrow>
          (let token = map_of cs (COOKIE_NAME e) in
           if falsy token then
             Sent \<lparr>status = 401, json = error_json ''Not authenticated'', set_cookie = []\<rparr>
           else
             case jwt_verify L (str_of token) (SESSION_SECRET e) of
               None \<Rightarrow>
                 Sent \<lparr>status = 401, json = error_json ''Invalid or expired session'',
                       set_cookie = []\<rparr>
             | Some payload \<Rightarrow> Next (req\<lparr>user := payload\<rparr>)))"

text \<open>
  The admin-only routes and the gates a request passes before their handlers run:
  \<^verbatim>\<open>
  // app.js
  app.use("/users", requireAuth, userRoutes);
  // routes/users.js
  const { requireRole } = require('../middleware/auth');
  router.post('/', requireRole('admin'), ...);      router.get('/', requireRole('admin'), ...);
  router.get('/:id', requireRole('admin'), ...);    router.put('/:id', requireRole('admin'), ...);
  router.delete('/:id', requireRole('admin'), ...);
  // routes/products.js
  const { requireAuth, requireRole } = require("../middleware/auth");
  router.put("/:id", requireAuth, requireRole("admin"), upload.single("file"), ...);
  router.delete("/:id", requireAuth, requireRole("admin"), ...);
  \<close>
  \<open>Next req'\<close> means that the handler runs, on \<open>req'\<close>. Both chains are given the
  store; the inline gate of app.js does not read it.
\<close>

definition users_admin_gates :: "libs \<Rightarrow> process_env \<Rightarrow> db \<Rightarrow> request \<Rightarrow> outcome" where
  "users_admin_gates L e d req = chain (app_requireAuth L e) (requireRole ''admin'') req"

definition products_admin_gates :: "libs \<Rightarrow> process_env \<Rightarrow> db \<Rightarrow> request \<Rightarrow> outcome" where
  "products_admin_gates L e d req = chain (requireAuth L e d) (requireRole ''admin'') req"

section \<open>routes/users.js: creating an account with a role\<close>

text \<open>
  POST /users, behind the gates above.
  \<^verbatim>\<open>
  const { email, username, password, role, mobile } = req.body;
  if (!email || !username || !password) return res.status(400).json({ error: 'Missing fields' });
  const exists = await User.findOne({ email });
  if (exists) return res.status(400).json({ error: 'Email already exists' });
  const salt = await bcrypt.genSalt(10);
  const passwordHash = await bcrypt.hash(password, salt);
  const user = new User({ email, username, passwordHash, role: role || 'user', mobile });
  await user.save();
  const userSafe = { id: user._id, email: user.email, username: user.username,
                     role: user.role, mobile: user.mobile };
  return res.status(201).json({ user: userSafe });
  // catch (err): return res.status(500).json({ error: 'Server error' });
  \<close>
\<close>

definition create_user_doc :: "libs \<Rightarrow> string \<Rightarrow> string \<Rightarrow> int \<Rightarrow> request \<Rightarrow> jsval" where
  "create_user_doc L salt oid now req =
     (let email = body_field req ''email'';
          username = body_field req ''username'';
          password = body_field req ''password'';
          role = body_field req ''role'';
          mobile = body_field req ''mobile'';
          passwordHash = bcrypt_hash L (string_of password) salt
      in new_User L oid now
           (JObj [(''email'', email), (''username'', username),
                  (''passwordHash'', JStr passwordHash),
                  (''role'', (if truthy role then role else JStr ''user'')),
                  (''mobile'', mobile)]))"

definition create_user :: "libs \<Rightarrow> db \<Rightarrow> string \<Rightarrow> string \<Rightarrow> int \<Rightarrow> request \<Rightarrow> response \<times> db" where
  "create_user L d salt oid now req =
     (let email = body_field req ''email'';
          username = body_field req ''username'';
          password = body_field req ''password''
      in
      if js_not email \<or> js_not username \<or> js_not password then
        (\<lparr>status = 400, json = error_json ''Missing fields'', set_cookie = []\<rparr>, d)
      else
        case findOne_email L d email of
          Inl err \<Rightarrow> (server_error, d)
        | Inr (Some exists) \<Rightarrow>
            (\<lparr>status = 400, json = error_json ''Email already exists'', set_cookie = []\<rparr>, d)
        | Inr None \<Rightarrow>
            (case password of
               JStr pw \<Rightarrow>
                 (let new_user = create_user_doc L salt oid now req in
                  case save d new_user of
                    Inl err \<Rightarrow> (server_error, d)
                  | Inr d' \<Rightarrow>
                      (\<lparr>status = 201,
                        json = JObj [(''user'',
                          JObj [(''id'', get new_user ''_id''),
                                (''email'', get new_user ''email''),
                                (''username'', get new_user ''username''),
                                (''role'', get new_user ''role''),
                                (''mobile'', get new_user ''mobile'')])],
                        set_cookie = []\<rparr>, d'))
             | _ \<Rightarrow> (server_error, d)))"

section \<open>The client's cookie store\<close>

text \<open>
  What a browser keeps after a response: a cookie is identified by its name and path;
  \<open>res.cookie\<close> stores or replaces it, \<open>res.clearCookie\<close> (a cookie that has already
  expired) removes it.
\<close>

type_synonym cookie_jar = "string \<times> string \<Rightarrow> string option"

fun apply_cookie_op :: "cookie_jar \<Rightarrow> cookie_op \<Rightarrow> cookie_jar" where
  "apply_cookie_op jar (SetCookie n v opts) = jar((n, path opts) \<mapsto> v)"
| "apply_cookie_op jar (ClearCookie n p) = jar((n, p) := None)"

definition receive :: "response \<Rightarrow> cookie_jar \<Rightarrow> cookie_jar" where
  "receive r jar = foldl apply_cookie_op jar (set_cookie r)"

section \<open>A sample deployment\<close>

text \<open>
  Concrete libraries, configuration and accounts on which the handlers can be evaluated.
  The token \<open>tok-alice\<close> was issued to alice while her role was user, \<open>tok-gone\<close>
  to an admin whose account has been deleted since, and \<open>tok-nobody\<close> is a signed
  payload without \<open>uid\<close>; any other token is rejected. The sample's string functions
  are those of JavaScript on ASCII strings, and its mongoose refuses to cast a value that
  is not a string (no evaluation below reaches such a cast).
\<close>

definition ascii_toLowerCase :: "string \<Rightarrow> string" where
  "ascii_toLowerCase s =
     map (\<lambda>c. if 65 \<le> (of_char c :: nat) \<and> (of_char c :: nat) \<le> 90
              then char_of (of_char c + (32 :: nat)) else c) s"

definition ascii_space :: "char \<Rightarrow> bool" where
  "ascii_space c =
     ((of_char c :: nat) = 32 \<or> (9 \<le> (of_char c :: nat) \<and> (of_char c :: nat) \<le> 13))"

definition ascii_trim :: "string \<Rightarrow> string" where
  "ascii_trim s = rev (dropWhile ascii_space (rev (dropWhile ascii_space s)))"

definition sample_libs :: libs where
  "sample_libs =
     \<lparr>jwt_sign = (\<lambda>p s. ''tok-alice''),
      jwt_verify = (\<lambda>t s.
        if s \<noteq> ''dev_secret'' then None
        else if t = ''tok-alice'' then
          Some (JObj [(''uid'', JStr ''a1''), (''role'', JStr ''user''),
                      (''username'', JStr ''alice'')])
        else if t = ''tok-nobody'' then Some (JObj [(''role'', JStr ''user'')])
        else if t = ''tok-gone'' then
          Some (JObj [(''uid'', JStr ''z9''), (''role'', JStr ''admin''),
                      (''username'', JStr ''zed'')])
        else None),
      bcrypt_hash = (\<lambda>pw salt. salt @ rev pw),
      bcrypt_compare = (\<lambda>pw h. drop 2 h = rev pw),
      castObjectId = (\<lambda>v. case v of JStr s \<Rightarrow> Some s | _ \<Rightarrow> None),
      castString = (\<lambda>v. None),
      castFilter = (\<lambda>v. None),
      toLowerCase = ascii_toLowerCase,
      trim = ascii_trim\<rparr>"

definition sample_env :: process_env where
  "sample_env =
     \<lparr>env_NODE_ENV = None, env_COOKIE_NAME = None, env_SESSION_SECRET = None,
      env_COOKIE_MAX_AGE = None\<rparr>"

definition alice :: "string \<Rightarrow> jsval" where
  "alice r =
     JObj [(''_id'', JStr ''a1''), (''email'', JStr ''a@x.com''), (''username'', JStr ''alice''),
           (''passwordHash'', JStr ''s$321wp''), (''mobile'', JStr ''555''), (''role'', JStr r),
           (''company'', JStr ''c1''), (''createdAt'', JNum 0)]"

definition sample_db :: "string \<Rightarrow> db" where
  "sample_db r = \<lparr>users = [alice r], online = True\<rparr>"

definition with_cookie :: "string \<Rightarrow> request" where
  "with_cookie t = \<lparr>cookies = Some [(''session'', t)], body = [], user = JUndefined\<rparr>"

definition with_body :: "(string \<times> jsval) list \<Rightarrow> request" where
  "with_body b = \<lparr>cookies = Some [], body = b, user = JUndefined\<rparr>"

section \<open>Properties of the store and of values\<close>

lemma map_of_filter_key: "map_of (filter (\<lambda>kv. fst kv \<noteq> k) xs) k = None"
  by (induction xs) auto

lemma map_of_filter_other:
  "k' \<noteq> k \<Longrightarrow> map_of (filter (\<lambda>kv. fst kv \<noteq> k) xs) k' = map_of xs k'"
  by (induction xs) auto

lemma select_minus_get: "get (select_minus k u) k = JUndefined"
  by (cases u) (simp_all add: map_of_filter_key)

lemma select_minus_other: "k' \<noteq> k \<Longrightarrow> get (select_minus k u) k' = get u k'"
  by (cases u) (simp_all add: map_of_filter_other)

lemma truthy_get: "truthy (get p k) \<Longrightarrow> truthy p"
  by (cases p) auto

lemma sample_lookup_alice:
  "findById sample_libs (sample_db r) (JStr ''a1'') = Inr (Some (alice r))"
  by (simp add: findById_def sample_libs_def sample_db_def alice_def)

lemma sample_lookup_gone:
  "findById sample_libs (sample_db r) (JStr ''z9'') = Inr None"
  by (simp add: findById_def sample_libs_def sample_db_def alice_def)

lemma sample_lookup_offline:
  "findById sample_libs ((sample_db r)\<lparr>online := False\<rparr>) (JStr ''a1'') = Inl StoreUnavailable"
  by (simp add: findById_def sample_libs_def sample_db_def alice_def)

lemma sample_token: "session_token sample_env (with_cookie t) = Some t"
  by (simp add: session_token_def with_cookie_def COOKIE_NAME_def sample_env_def or_default_def)

lemma sample_cookies: "cookies (with_cookie t) = Some [(''session'', t)]"
  by (simp add: with_cookie_def)

lemma sample_no_token: "session_token sample_env (with_body b) = None"
  by (simp add: session_token_def with_body_def)

lemma sample_secret: "SESSION_SECRET sample_env = ''dev_secret''" "COOKIE_NAME sample_env = ''session''"
  by (simp_all add: SESSION_SECRET_def COOKIE_NAME_def sample_env_def or_default_def)

lemma sample_verify:
  "jwt_verify sample_libs ''tok-alice'' ''dev_secret'' =
     Some (JObj [(''uid'', JStr ''a1''), (''role'', JStr ''user''), (''username'', JStr ''alice'')])"
  "jwt_verify sample_libs ''tok-nobody'' ''dev_secret'' = Some (JObj [(''role'', JStr ''user'')])"
  "jwt_verify sample_libs ''tok-gone'' ''dev_secret'' =
     Some (JObj [(''uid'', JStr ''z9''), (''role'', JStr ''admin''), (''username'', JStr ''zed'')])"
  "jwt_verify sample_libs ''expired'' ''dev_secret'' = None"
  by (simp_all add: sample_libs_def)

lemma sample_normalize:
  "toLowerCase sample_libs (trim sample_libs ''a@x.com'') = ''a@x.com''"
  "toLowerCase sample_libs (trim sample_libs ''b@x.com'') = ''b@x.com''"
  by (simp_all add: sample_libs_def ascii_toLowerCase_def ascii_trim_def ascii_space_def)

lemma sample_findOne_alice:
  "findOne_email sample_libs (sample_db r) (JStr ''a@x.com'') = Inr (Some (alice r))"
  by (simp add: findOne_email_def email_filter_def sample_normalize sample_db_def alice_def)

lemma sample_findOne_unknown:
  "findOne_email sample_libs (sample_db r) (JStr ''b@x.com'') = Inr None"
  by (simp add: findOne_email_def email_filter_def sample_normalize sample_db_def alice_def)

lemma sample_findOne_empty:
  "findOne_email sample_libs \<lparr>users = [], online = True\<rparr> (JStr ''a@x.com'') = Inr None"
  by (simp add: findOne_email_def email_filter_def)

lemma sample_compare:
  "bcrypt_compare sample_libs ''pw123'' ''s$321wp''"
  "\<not> bcrypt_compare sample_libs ''guess'' ''s$321wp''"
  by (simp_all add: sample_libs_def)

lemma sample_sign: "jwt_sign sample_libs p s = ''tok-alice''"
  by (simp add: sample_libs_def)

lemma alice_fields:
  "get (alice r) ''_id'' = JStr ''a1''"
  "get (alice r) ''email'' = JStr ''a@x.com''"
  "get (alice r) ''username'' = JStr ''alice''"
  "get (alice r) ''passwordHash'' = JStr ''s$321wp''"
  "get (alice r) ''role'' = JStr r"
  by (simp_all add: alice_def)

lemma sample_body: "body_field (with_body b) k = get (JObj b) k"
  by (simp add: with_body_def body_field_def)

lemma sample_members: "body (with_body b) = b"
  by (simp add: with_body_def)

lemma sample_max_age: "maxAge (cookieOptions sample_env) = Finite 86400000"
  by (simp add: cookieOptions_def COOKIE_MAX_AGE_def sample_env_def)

text \<open>
  The inline gate of app.js lets every verified payload through as the principal and
  never touches the cookie.
\<close>

lemma app_requireAuth_verified:
  "cookies req \<noteq> None \<Longrightarrow> session_token e req = Some t \<Longrightarrow> t \<noteq> [] \<Longrightarrow>
   jwt_verify L t (SESSION_SECRET e) = Some p \<Longrightarrow>
   app_requireAuth L e req = Next (req\<lparr>user := p\<rparr>)"
  by (auto simp: app_requireAuth_def session_token_def falsy_def str_of_def Let_def
           split: option.splits)

lemma app_requireAuth_never_clears:
  "app_requireAuth L e req = Sent r \<Longrightarrow> set_cookie r = []"
  by (auto simp: app_requireAuth_def Let_def split: option.splits if_splits)

text \<open>
  What the two chains of gates in front of the admin-only handlers decide on: the chain
  of the /users routes reads the role in the token's payload, the chain of the /products
  routes the role of the stored account.
\<close>

lemma users_admin_gates_token:
  "cookies req \<noteq> None \<Longrightarrow> session_token e req = Some t \<Longrightarrow> t \<noteq> [] \<Longrightarrow>
   jwt_verify L t (SESSION_SECRET e) = Some p \<Longrightarrow>
   users_admin_gates L e d req = requireRole ''admin'' (req\<lparr>user := p\<rparr>)"
  by (simp add: users_admin_gates_def chain_def app_requireAuth_verified)

lemma users_admin_gates_any_store:
  "users_admin_gates L e d req = users_admin_gates L e d' req"
  by (simp add: users_admin_gates_def)

lemma products_admin_gates_store:
  "session_token e req = Some t \<Longrightarrow> t \<noteq> [] \<Longrightarrow>
   jwt_verify L t (SESSION_SECRET e) = Some p \<Longrightarrow> truthy (get p ''uid'') \<Longrightarrow>
   findById L d (get p ''uid'') = Inr (Some u) \<Longrightarrow> truthy u \<Longrightarrow>
   products_admin_gates L e d req =
     (if get u ''role'' = JStr ''admin''
      then Next (req\<lparr>user := select_minus ''passwordHash'' u\<rparr>)
      else Sent \<lparr>status = 403, json = error_json ''Forbidden'', set_cookie = []\<rparr>)"
  apply (auto simp: products_admin_gates_def chain_def requireAuth_def falsy_def str_of_def
           Let_def requireRole_def select_minus_other dest: truthy_get)
  apply (cases u; simp)+
  done

text \<open>
  What \<open>new User\<close> makes of its argument, and what \<open>save()\<close> makes of the documents
  that the two account-creating handlers build: neither handler sets \<open>company\<close>, which
  the schema requires.
\<close>

lemma map_of_String_path_other: "k' \<noteq> k \<Longrightarrow> map_of (String_path L obj k) k' = None"
  by (simp add: String_path_def split: option.splits)

lemma map_of_String_path_string:
  "get obj k = JStr s \<Longrightarrow> map_of (String_path L obj k) k = Some (JStr s)"
  by (simp add: String_path_def set_String_def)

lemma map_of_email_path_other: "k' \<noteq> ''email'' \<Longrightarrow> map_of (email_path L obj) k' = None"
  by (simp add: email_path_def split: option.splits)

lemma map_of_role_path_other: "k' \<noteq> ''role'' \<Longrightarrow> map_of (role_path L obj) k' = None"
  by (simp add: role_path_def split: option.splits)

lemma map_of_role_path_default:
  "get obj ''role'' = JUndefined \<Longrightarrow> map_of (role_path L obj) ''role'' = Some (JStr ''user'')"
  by (simp add: role_path_def)

lemma map_of_role_path_string:
  "get obj ''role'' = JStr s \<Longrightarrow> map_of (role_path L obj) ''role'' = Some (JStr s)"
  by (simp add: role_path_def set_String_def)

lemma map_of_ObjectId_path_other: "k' \<noteq> k \<Longrightarrow> map_of (ObjectId_path L obj k) k' = None"
  by (simp add: ObjectId_path_def split: option.splits)

lemma map_of_ObjectId_path_unset:
  "get obj k = JUndefined \<Longrightarrow> map_of (ObjectId_path L obj k) k = None"
  by (simp add: ObjectId_path_def)

lemmas new_User_lookups =
  map_add_def map_of_String_path_other map_of_email_path_other map_of_role_path_other
  map_of_ObjectId_path_other

lemma new_User_role_default:
  "get obj ''role'' = JUndefined \<Longrightarrow> get (new_User L oid now obj) ''role'' = JStr ''user''"
  by (simp add: new_User_def new_User_lookups map_of_role_path_default)

lemma new_User_role_string:
  "get obj ''role'' = JStr s \<Longrightarrow> get (new_User L oid now obj) ''role'' = JStr s"
  by (simp add: new_User_def new_User_lookups map_of_role_path_string)

lemma new_User_role_cast:
  "get obj ''role'' = v \<Longrightarrow> v \<noteq> JUndefined \<Longrightarrow> \<forall>s. v \<noteq> JStr s \<Longrightarrow>
   get (new_User L oid now obj) ''role'' =
     (case castString L v of None \<Rightarrow> JStr ''user'' | Some c \<Rightarrow> c)"
  by (cases v)
     (simp_all add: new_User_def new_User_lookups role_path_def set_String_def
        split: option.splits)

lemma new_User_company_unset:
  "get obj ''company'' = JUndefined \<Longrightarrow> get (new_User L oid now obj) ''company'' = JUndefined"
  by (simp add: new_User_def new_User_lookups map_of_ObjectId_path_unset)

lemma new_User_passwordHash:
  "get obj ''passwordHash'' = JStr h \<Longrightarrow>
   get (new_User L oid now obj) ''passwordHash'' = JStr h"
  by (simp add: new_User_def new_User_lookups map_of_String_path_string)

lemma signup_user_invalid: "\<not> validate (signup_user L salt oid now req)"
  by (simp add: validate_def signup_user_def Let_def new_User_company_unset)

lemma create_user_doc_invalid: "\<not> validate (create_user_doc L salt oid now req)"
  by (simp add: validate_def create_user_doc_def Let_def new_User_company_unset)

lemma save_invalid: "\<not> validate doc \<Longrightarrow> save d doc = Inl ValidationError"
  by (simp add: save_def)

lemma signup_user_hash:
  "get (signup_user L salt oid now req) ''passwordHash'' =
     JStr (bcrypt_hash L (string_of (body_field req ''password'')) salt)"
  by (simp add: signup_user_def Let_def new_User_passwordHash)

lemma signup_bad_request:
  "(\<not> truthy (body_field req ''email'') \<or> \<not> truthy (body_field req ''username'')
      \<or> \<not> truthy (body_field req ''password'') \<or> \<not> truthy (body_field req ''mobile'') \<longrightarrow>
      signup L d salt oid now req =
        (\<lparr>status = 400, json = error_json ''Missing fields'', set_cookie = []\<rparr>, d))
   \<and> (truthy (body_field req ''email'') \<and> truthy (body_field req ''username'')
      \<and> truthy (body_field req ''password'') \<and> truthy (body_field req ''mobile'')
      \<and> findOne_email L d (body_field req ''email'') = Inr (Some u) \<longrightarrow>
      signup L d salt oid now req =
        (\<lparr>status = 400, json = error_json ''Email already in use'', set_cookie = []\<rparr>, d))"
  by (simp add: signup_def Let_def js_not_def)

text \<open>
  Login with a password that is a string: an unknown email and a wrong password get the
  same 401. With a truthy password that is not a string, login answers 401 for an unknown
  email and 500 for a known one.
\<close>

lemma login_string_password_uniform:
  assumes "truthy (body_field r1 ''email'')" and "truthy (body_field r1 ''password'')"
    and "truthy (body_field r2 ''email'')" and "body_field r2 ''password'' = JStr pw"
    and "pw \<noteq> []"
    and "findOne_email L d (body_field r1 ''email'') = Inr None"
    and "findOne_email L d (body_field r2 ''email'') = Inr (Some u)"
    and "get u ''passwordHash'' = JStr h"
    and "\<not> bcrypt_compare L pw h"
  shows "login L e d r1 = login L e d r2
         \<and> login L e d r1 =
             \<lparr>status = 401, json = error_json ''Invalid credentials'', set_cookie = []\<rparr>"
  using assms by (simp add: login_def Let_def js_not_def)

lemma login_other_password:
  assumes "truthy (body_field req ''email'')" and "truthy (body_field req ''password'')"
    and "\<forall>pw. body_field req ''password'' \<noteq> JStr pw"
  shows "login L e d req =
           (case findOne_email L d (body_field req ''email'') of
              Inl err \<Rightarrow> server_error
            | Inr None \<Rightarrow>
                \<lparr>status = 401, json = error_json ''Invalid credentials'', set_cookie = []\<rparr>
            | Inr (Some u) \<Rightarrow> server_error)"
  using assms
  by (cases "body_field req ''password''")
     (simp_all add: login_def Let_def js_not_def split: sum.splits option.splits)

section \<open>The role gate\<close>

text \<open>
  C5. At the role gate with required role \<open>r\<close>: a request with no principal attached is
  answered 401 "Not authenticated"; a request whose principal has a role other than
  exactly \<open>r\<close> is answered 403 "Forbidden"; the gate lets a request through only when
  the principal's role equals \<open>r\<close>, and then hands it on unchanged. There is no
  hierarchy: a principal with role admin does not pass a gate that requires user.
\<close>

theorem requireRole_exact_match:
  "(\<not> truthy (user req) \<longrightarrow>
      requireRole r req =
        Sent \<lparr>status = 401, json = error_json ''Not authenticated'', set_cookie = []\<rparr>)
   \<and> (truthy (user req) \<and> get (user req) ''role'' \<noteq> JStr r \<longrightarrow>
      requireRole r req =
        Sent \<lparr>status = 403, json = error_json ''Forbidden'', set_cookie = []\<rparr>)
   \<and> ((\<exists>req'. requireRole r req = Next req') \<longleftrightarrow>
        truthy (user req) \<and> get (user req) ''role'' = JStr r)
   \<and> (\<forall>req'. requireRole r req = Next req' \<longrightarrow> req' = req)
   \<and> (get (user req) ''role'' = JStr ''admin'' \<longrightarrow>
        requireRole ''user'' req \<noteq> Next req)"
  by (auto simp: requireRole_def)

theorem requireRole_exact_match_witness:
  "requireRole ''admin'' \<lparr>cookies = Some [], body = [], user = JUndefined\<rparr> =
     Sent \<lparr>status = 401, json = error_json ''Not authenticated'', set_cookie = []\<rparr>
   \<and> requireRole ''admin''
        \<lparr>cookies = Some [], body = [], user = JObj [(''role'', JStr ''user'')]\<rparr> =
     Sent \<lparr>status = 403, json = error_json ''Forbidden'', set_cookie = []\<rparr>
   \<and> requireRole ''user''
        \<lparr>cookies = Some [], body = [], user = JObj [(''role'', JStr ''admin'')]\<rparr> \<noteq>
     Next \<lparr>cookies = Some [], body = [], user = JObj [(''role'', JStr ''admin'')]\<rparr>
   \<and> (\<exists>req'. requireRole ''admin''
        \<lparr>cookies = Some [], body = [], user = JObj [(''role'', JStr ''admin'')]\<rparr> = Next req')"
  using requireRole_exact_match
          [of "\<lparr>cookies = Some [], body = [], user = JUndefined\<rparr>" "''admin''"]
        requireRole_exact_match
          [of "\<lparr>cookies = Some [], body = [], user = JObj [(''role'', JStr ''user'')]\<rparr>"
              "''admin''"]
        requireRole_exact_match
          [of "\<lparr>cookies = Some [], body = [], user = JObj [(''role'', JStr ''admin'')]\<rparr>"
              "''user''"]
        requireRole_exact_match
          [of "\<lparr>cookies = Some [], body = [], user = JObj [(''role'', JStr ''admin'')]\<rparr>"
              "''admin''"]
  by simp

section \<open>The authentication gate\<close>

text \<open>
  The gate of middleware/auth.js runs its stages in order and the first one that fails
  answers 401 and ends the request, whatever the later stages would have found:
  no session cookie (absent or empty) gives "Not authenticated"; a token that
  \<open>jwt.verify\<close> rejects (invalid or expired) gives "Invalid or expired session" and
  clears the cookie; a verified payload without a \<open>uid\<close> gives "Invalid session payload"
  and clears the cookie; a \<open>uid\<close> for which the store finds no account gives
  "Session user not found" and clears the cookie; otherwise the account found, without
  its \<open>passwordHash\<close> and with every other field as stored, is attached as
  \<open>req.user\<close> and the request goes on.
\<close>

lemma requireAuth_stages:
  "(falsy (session_token e req) \<longrightarrow>
      requireAuth L e d req =
        Sent \<lparr>status = 401, json = error_json ''Not authenticated'', set_cookie = []\<rparr>)
   \<and> (session_token e req = Some t \<and> t \<noteq> [] \<and> jwt_verify L t (SESSION_SECRET e) = None \<longrightarrow>
      requireAuth L e d req =
        Sent \<lparr>status = 401, json = error_json ''Invalid or expired session'',
              set_cookie = [ClearCookie (COOKIE_NAME e) ''/'']\<rparr>)
   \<and> (session_token e req = Some t \<and> t \<noteq> [] \<and> jwt_verify L t (SESSION_SECRET e) = Some p
        \<and> \<not> truthy (get p ''uid'') \<longrightarrow>
      requireAuth L e d req =
        Sent \<lparr>status = 401, json = error_json ''Invalid session payload'',
              set_cookie = [ClearCookie (COOKIE_NAME e) ''/'']\<rparr>)
   \<and> (session_token e req = Some t \<and> t \<noteq> [] \<and> jwt_verify L t (SESSION_SECRET e) = Some p
        \<and> truthy (get p ''uid'') \<and> findById L d (get p ''uid'') = Inr None \<longrightarrow>
      requireAuth L e d req =
        Sent \<lparr>status = 401, json = error_json ''Session user not found'',
              set_cookie = [ClearCookie (COOKIE_NAME e) ''/'']\<rparr>)
   \<and> (session_token e req = Some t \<and> t \<noteq> [] \<and> jwt_verify L t (SESSION_SECRET e) = Some p
        \<and> truthy (get p ''uid'') \<and> findById L d (get p ''uid'') = Inr (Some u) \<longrightarrow>
      requireAuth L e d req = Next (req\<lparr>user := select_minus ''passwordHash'' u\<rparr>)
      \<and> get (select_minus ''passwordHash'' u) ''passwordHash'' = JUndefined
      \<and> (\<forall>k. k \<noteq> ''passwordHash'' \<longrightarrow>
            get (select_minus ''passwordHash'' u) k = get u k))"
  by (auto simp: requireAuth_def falsy_def str_of_def Let_def select_minus_get
        select_minus_other dest: truthy_get)

lemma requireAuth_stages_sample:
  "requireAuth sample_libs sample_env (sample_db ''user'') (with_body []) =
     Sent \<lparr>status = 401, json = error_json ''Not authenticated'', set_cookie = []\<rparr>
   \<and> requireAuth sample_libs sample_env (sample_db ''user'') (with_cookie ''expired'') =
     Sent \<lparr>status = 401, json = error_json ''Invalid or expired session'',
           set_cookie = [ClearCookie ''session'' ''/'']\<rparr>
   \<and> requireAuth sample_libs sample_env (sample_db ''user'') (with_cookie ''tok-nobody'') =
     Sent \<lparr>status = 401, json = error_json ''Invalid session payload'',
           set_cookie = [ClearCookie ''session'' ''/'']\<rparr>
   \<and> requireAuth sample_libs sample_env (sample_db ''user'') (with_cookie ''tok-gone'') =
     Sent \<lparr>status = 401, json = error_json ''Session user not found'',
           set_cookie = [ClearCookie ''session'' ''/'']\<rparr>
   \<and> requireAuth sample_libs sample_env (sample_db ''user'') (with_cookie ''tok-alice'') =
     Next ((with_cookie ''tok-alice'')\<lparr>user := select_minus ''passwordHash'' (alice ''user'')\<rparr>)"
  using requireAuth_stages
          [where e = sample_env and L = sample_libs and d = "sample_db ''user''"
             and req = "with_body []"]
        requireAuth_stages
          [where e = sample_env and L = sample_libs and d = "sample_db ''user''"
             and req = "with_cookie ''expired''" and t = "''expired''"]
        requireAuth_stages
          [where e = sample_env and L = sample_libs and d = "sample_db ''user''"
             and req = "with_cookie ''tok-nobody''" and t = "''tok-nobody''"
             and p = "JObj [(''role'', JStr ''user'')]"]
        requireAuth_stages
          [where e = sample_env and L = sample_libs and d = "sample_db ''user''"
             and req = "with_cookie ''tok-gone''" and t = "''tok-gone''"
             and p = "JObj [(''uid'', JStr ''z9''), (''role'', JStr ''admin''),
                            (''username'', JStr ''zed'')]"]
        requireAuth_stages
          [where e = sample_env and L = sample_libs and d = "sample_db ''user''"
             and req = "with_cookie ''tok-alice''" and t = "''tok-alice''"
             and p = "JObj [(''uid'', JStr ''a1''), (''role'', JStr ''user''),
                            (''username'', JStr ''alice'')]"
             and u = "alice ''user''"]
  by (simp add: sample_token sample_no_token sample_secret sample_lookup_alice
        sample_lookup_gone falsy_def sample_verify)

text \<open>
  C2. The claim is that every protected request passes the five stages in order, each
  failure answering 401 and, from the second stage on, clearing the cookie. The gate of
  middleware/auth.js does so (lemma \<open>requireAuth_stages\<close>), but app.js puts
  /protected and every /users route behind its own inline \<open>requireAuth\<close>, which
  stops after the second stage. Evaluated on the sample deployment: on an expired token
  the inline gate answers 401 and leaves the cookie; it lets a verified payload without
  \<open>uid\<close> through; and it lets the token of an account that the store no longer has
  through, so that this token of a deleted admin also passes \<open>requireRole('admin')\<close>
  in front of the /users handlers. The gate of middleware/auth.js answers each of the
  three with 401 and clears the cookie.
\<close>

theorem inline_gate_skips_stages:
  "app_requireAuth sample_libs sample_env (with_cookie ''expired'') =
     Sent \<lparr>status = 401, json = error_json ''Invalid or expired session'', set_cookie = []\<rparr>
   \<and> app_requireAuth sample_libs sample_env (with_cookie ''tok-nobody'') =
       Next ((with_cookie ''tok-nobody'')\<lparr>user := JObj [(''role'', JStr ''user'')]\<rparr>)
   \<and> findById sample_libs (sample_db ''user'') (JStr ''z9'') = Inr None
   \<and> app_requireAuth sample_libs sample_env (with_cookie ''tok-gone'') =
       Next ((with_cookie ''tok-gone'')
               \<lparr>user := JObj [(''uid'', JStr ''z9''), (''role'', JStr ''admin''),
                              (''username'', JStr ''zed'')]\<rparr>)
   \<and> users_admin_gates sample_libs sample_env (sample_db ''user'') (with_cookie ''tok-gone'') =
       Next ((with_cookie ''tok-gone'')
               \<lparr>user := JObj [(''uid'', JStr ''z9''), (''role'', JStr ''admin''),
                              (''username'', JStr ''zed'')]\<rparr>)
   \<and> requireAuth sample_libs sample_env (sample_db ''user'') (with_cookie ''expired'') =
       Sent \<lparr>status = 401, json = error_json ''Invalid or expired session'',
             set_cookie = [ClearCookie ''session'' ''/'']\<rparr>
   \<and> requireAuth sample_libs sample_env (sample_db ''user'') (with_cookie ''tok-nobody'') =
       Sent \<lparr>status = 401, json = error_json ''Invalid session payload'',
             set_cookie = [ClearCookie ''session'' ''/'']\<rparr>
   \<and> requireAuth sample_libs sample_env (sample_db ''user'') (with_cookie ''tok-gone'') =
       Sent \<lparr>status = 401, json = error_json ''Session user not found'',
             set_cookie = [ClearCookie ''session'' ''/'']\<rparr>"
proof -
  have inline:
    "app_requireAuth sample_libs sample_env (with_cookie ''expired'') =
       Sent \<lparr>status = 401, json = error_json ''Invalid or expired session'', set_cookie = []\<rparr>"
    "app_requireAuth sample_libs sample_env (with_cookie ''tok-nobody'') =
       Next ((with_cookie ''tok-nobody'')\<lparr>user := JObj [(''role'', JStr ''user'')]\<rparr>)"
    "app_requireAuth sample_libs sample_env (with_cookie ''tok-gone'') =
       Next ((with_cookie ''tok-gone'')
               \<lparr>user := JObj [(''uid'', JStr ''z9''), (''role'', JStr ''admin''),
                              (''username'', JStr ''zed'')]\<rparr>)"
    by (simp_all add: app_requireAuth_def sample_cookies sample_secret sample_verify
          falsy_def str_of_def)
  have users:
    "users_admin_gates sample_libs sample_env (sample_db ''user'') (with_cookie ''tok-gone'') =
       Next ((with_cookie ''tok-gone'')
               \<lparr>user := JObj [(''uid'', JStr ''z9''), (''role'', JStr ''admin''),
                              (''username'', JStr ''zed'')]\<rparr>)"
    by (simp add: users_admin_gates_def chain_def inline requireRole_def)
  have hardened:
    "requireAuth sample_libs sample_env (sample_db ''user'') (with_cookie ''expired'') =
       Sent \<lparr>status = 401, json = error_json ''Invalid or expired session'',
             set_cookie = [ClearCookie ''session'' ''/'']\<rparr>"
    "requireAuth sample_libs sample_env (sample_db ''user'') (with_cookie ''tok-nobody'') =
       Sent \<lparr>status = 401, json = error_json ''Invalid session payload'',
             set_cookie = [ClearCookie ''session'' ''/'']\<rparr>"
    "requireAuth sample_libs sample_env (sample_db ''user'') (with_cookie ''tok-gone'') =
       Sent \<lparr>status = 401, json = error_json ''Session user not found'',
             set_cookie = [ClearCookie ''session'' ''/'']\<rparr>"
    by (simp_all add: requireAuth_def sample_token sample_secret sample_verify
          sample_lookup_gone falsy_def str_of_def)
  show ?thesis
    by (simp only: inline users hardened sample_lookup_gone simp_thms)
qed

theorem inline_gate_skips_stages_witness:
  "(\<exists>r. app_requireAuth sample_libs sample_env (with_cookie ''expired'') = Sent r
         \<and> set_cookie r = [])
   \<and> (\<exists>r. requireAuth sample_libs sample_env (sample_db ''user'') (with_cookie ''expired'') =
           Sent r \<and> set_cookie r = [ClearCookie ''session'' ''/''])
   \<and> (\<exists>req. app_requireAuth sample_libs sample_env (with_cookie ''tok-nobody'') = Next req)
   \<and> (\<exists>r. requireAuth sample_libs sample_env (sample_db ''user'') (with_cookie ''tok-nobody'') =
           Sent r \<and> status r = 401)
   \<and> (\<exists>req. app_requireAuth sample_libs sample_env (with_cookie ''tok-gone'') = Next req)
   \<and> (\<exists>r. requireAuth sample_libs sample_env (sample_db ''user'') (with_cookie ''tok-gone'') =
           Sent r \<and> status r = 401)"
  using inline_gate_skips_stages by simp

text \<open>
  C4. When the lookup of the account throws (the store is unreachable, or the identifier
  cannot be cast), the gate answers 401 "Authentication error", a message that none of
  the other failures uses, and leaves the cookie alone. Whenever the gate does clear the
  cookie, the token was rejected, or its payload had no \<open>uid\<close>, or the store answered
  that no such account exists.
\<close>

theorem requireAuth_fault_keeps_cookie:
  "(session_token e req = Some t \<and> t \<noteq> [] \<and> jwt_verify L t (SESSION_SECRET e) = Some p
      \<and> truthy (get p ''uid'') \<and> findById L d (get p ''uid'') = Inl err \<longrightarrow>
      requireAuth L e d req =
        Sent \<lparr>status = 401, json = error_json ''Authentication error'', set_cookie = []\<rparr>)
   \<and> error_json ''Authentication error'' \<noteq> error_json ''Not authenticated''
   \<and> error_json ''Authentication error'' \<noteq> error_json ''Invalid or expired session''
   \<and> error_json ''Authentication error'' \<noteq> error_json ''Invalid session payload''
   \<and> error_json ''Authentication error'' \<noteq> error_json ''Session user not found''
   \<and> (\<forall>r. requireAuth L e d req = Sent r \<and> set_cookie r \<noteq> [] \<longrightarrow>
         set_cookie r = [ClearCookie (COOKIE_NAME e) ''/'']
         \<and> (\<exists>t'. session_token e req = Some t' \<and> t' \<noteq> []
              \<and> (jwt_verify L t' (SESSION_SECRET e) = None
                  \<or> (\<exists>p'. jwt_verify L t' (SESSION_SECRET e) = Some p'
                        \<and> (\<not> truthy (get p' ''uid'')
                            \<or> findById L d (get p' ''uid'') = Inr None)))))"
  by (auto simp: requireAuth_def falsy_def str_of_def Let_def error_json_def
           split: option.splits sum.splits if_splits dest: truthy_get)

theorem requireAuth_fault_keeps_cookie_witness:
  "requireAuth sample_libs sample_env ((sample_db ''user'')\<lparr>online := False\<rparr>)
       (with_cookie ''tok-alice'') =
     Sent \<lparr>status = 401, json = error_json ''Authentication error'', set_cookie = []\<rparr>
   \<and> requireAuth sample_libs sample_env (sample_db ''user'') (with_cookie ''tok-gone'') =
     Sent \<lparr>status = 401, json = error_json ''Session user not found'',
           set_cookie = [ClearCookie ''session'' ''/'']\<rparr>
   \<and> (\<exists>t'. session_token sample_env (with_cookie ''tok-gone'') = Some t' \<and> t' \<noteq> []
          \<and> (jwt_verify sample_libs t' (SESSION_SECRET sample_env) = None
              \<or> (\<exists>p'. jwt_verify sample_libs t' (SESSION_SECRET sample_env) = Some p'
                    \<and> (\<not> truthy (get p' ''uid'')
                        \<or> findById sample_libs (sample_db ''user'') (get p' ''uid'') = Inr None))))"
proof -
  have fault:
    "requireAuth sample_libs sample_env ((sample_db ''user'')\<lparr>online := False\<rparr>)
       (with_cookie ''tok-alice'') =
     Sent \<lparr>status = 401, json = error_json ''Authentication error'', set_cookie = []\<rparr>"
    using requireAuth_fault_keeps_cookie
            [where e = sample_env and L = sample_libs
               and d = "(sample_db ''user'')\<lparr>online := False\<rparr>"
               and req = "with_cookie ''tok-alice''" and t = "''tok-alice''"
               and p = "JObj [(''uid'', JStr ''a1''), (''role'', JStr ''user''),
                              (''username'', JStr ''alice'')]"
               and err = StoreUnavailable]
    by (simp add: sample_token sample_secret sample_lookup_offline sample_verify)
  have gone:
    "requireAuth sample_libs sample_env (sample_db ''user'') (with_cookie ''tok-gone'') =
     Sent \<lparr>status = 401, json = error_json ''Session user not found'',
           set_cookie = [ClearCookie ''session'' ''/'']\<rparr>"
    by (simp add: requireAuth_def sample_token sample_secret sample_lookup_gone
          sample_verify falsy_def str_of_def)
  from gone show ?thesis
    using fault
          requireAuth_fault_keeps_cookie
            [where e = sample_env and L = sample_libs and d = "sample_db ''user''"
               and req = "with_cookie ''tok-gone''"]
    by simp
qed


section \<open>Login\<close>

text \<open>
  C3. The claim is that a login with an unknown email and a login with a known email and
  a password that does not match get the same response. The handler answers both with
  401 "Invalid credentials" when the password is a string (lemma
  \<open>login_string_password_uniform\<close>), but it passes whatever JSON value the body has to
  \<open>bcrypt.compare\<close>, and that only after it has found the account. Evaluated on the
  sample deployment with the password \<open>1\<close>: the email that the store does not know gets
  401 "Invalid credentials", the email of alice gets 500 "Server error".
\<close>

theorem login_reveals_known_email:
  "findOne_email sample_libs (sample_db ''user'') (JStr ''b@x.com'') = Inr None
   \<and> login sample_libs sample_env (sample_db ''user'')
         (with_body [(''email'', JStr ''b@x.com''), (''password'', JNum 1)]) =
       \<lparr>status = 401, json = error_json ''Invalid credentials'', set_cookie = []\<rparr>
   \<and> findOne_email sample_libs (sample_db ''user'') (JStr ''a@x.com'') =
       Inr (Some (alice ''user''))
   \<and> login sample_libs sample_env (sample_db ''user'')
         (with_body [(''email'', JStr ''a@x.com''), (''password'', JNum 1)]) =
       \<lparr>status = 500, json = error_json ''Server error'', set_cookie = []\<rparr>"
  by (simp add: login_def Let_def js_not_def sample_body sample_findOne_alice sample_findOne_unknown
        server_error_def)

section \<open>Admin-only routes after a change of role\<close>

text \<open>
  C1. The claim is that every admin-only route decides on the role of the stored account,
  so that a request succeeds once the account has become admin, with a token issued while
  it was user. Evaluated on the sample deployment: login issues \<open>tok-alice\<close> to alice
  while her role is user; after her stored role has become admin, the gates of the /users
  routes (the inline \<open>requireAuth\<close> of app.js, then \<open>requireRole('admin')\<close>) answer
  the same token with 403 "Forbidden", while the gates of the /products admin routes
  (\<open>requireAuth\<close> of middleware/auth.js, then \<open>requireRole('admin')\<close>) let it through
  with the stored account attached.
\<close>

theorem users_routes_trust_token_role:
  "set_cookie (login sample_libs sample_env (sample_db ''user'')
       (with_body [(''email'', JStr ''a@x.com''), (''password'', JStr ''pw123'')])) =
     [SetCookie ''session'' ''tok-alice'' (cookieOptions sample_env)]
   \<and> users_admin_gates sample_libs sample_env (sample_db ''admin'') (with_cookie ''tok-alice'') =
       Sent \<lparr>status = 403, json = error_json ''Forbidden'', set_cookie = []\<rparr>
   \<and> products_admin_gates sample_libs sample_env (sample_db ''admin'') (with_cookie ''tok-alice'') =
       Next ((with_cookie ''tok-alice'')\<lparr>user := select_minus ''passwordHash'' (alice ''admin'')\<rparr>)"
proof -
  have "set_cookie (login sample_libs sample_env (sample_db ''user'')
       (with_body [(''email'', JStr ''a@x.com''), (''password'', JStr ''pw123'')])) =
     [SetCookie ''session'' ''tok-alice'' (cookieOptions sample_env)]"
    by (simp add: login_def Let_def js_not_def sample_body sample_findOne_alice alice_fields
          sample_compare sample_secret sample_sign sample_max_age)
  moreover
  have "users_admin_gates sample_libs sample_env (sample_db ''admin'') (with_cookie ''tok-alice'') =
       Sent \<lparr>status = 403, json = error_json ''Forbidden'', set_cookie = []\<rparr>"
    by (simp add: users_admin_gates_def chain_def app_requireAuth_def requireRole_def
          sample_cookies sample_secret falsy_def str_of_def sample_verify)
  moreover
  have "products_admin_gates sample_libs sample_env (sample_db ''admin'') (with_cookie ''tok-alice'') =
       Next ((with_cookie ''tok-alice'')\<lparr>user := select_minus ''passwordHash'' (alice ''admin'')\<rparr>)"
    by (simp add: products_admin_gates_def chain_def requireAuth_def requireRole_def
          sample_token sample_secret falsy_def str_of_def sample_verify sample_lookup_alice
          select_minus_other alice_fields)
       (simp add: alice_def)
  ultimately show ?thesis by simp
qed

section \<open>The remaining auth endpoints\<close>

text \<open>
  C6. GET /auth/me always answers with status 200. With no session cookie, with a token
  that \<open>jwt.verify\<close> rejects (invalid or expired), and with a token whose \<open>uid\<close> has
  no account in the store, the body is \<open>{user: null}\<close>.
\<close>

theorem me_always_200:
  "status (me L e d req) = 200
   \<and> (falsy (session_token e req) \<longrightarrow> json (me L e d req) = JObj [(''user'', JNull)])
   \<and> (session_token e req = Some t \<and> jwt_verify L t (SESSION_SECRET e) = None \<longrightarrow>
        json (me L e d req) = JObj [(''user'', JNull)])
   \<and> (session_token e req = Some t \<and> jwt_verify L t (SESSION_SECRET e) = Some p
        \<and> findById L d (get p ''uid'') = Inr None \<longrightarrow>
        json (me L e d req) = JObj [(''user'', JNull)])"
  by (auto simp: me_def me_caught_def session_token_def falsy_def str_of_def Let_def
           split: option.splits sum.splits)

theorem me_always_200_witness:
  "me sample_libs sample_env (sample_db ''user'') (with_body []) =
     \<lparr>status = 200, json = JObj [(''user'', JNull)], set_cookie = []\<rparr>
   \<and> json (me sample_libs sample_env (sample_db ''user'') (with_cookie ''expired'')) =
       JObj [(''user'', JNull)]
   \<and> json (me sample_libs sample_env (sample_db ''user'') (with_cookie ''tok-gone'')) =
       JObj [(''user'', JNull)]
   \<and> status (me sample_libs sample_env (sample_db ''user'') (with_cookie ''tok-gone'')) = 200"
proof -
  have "me sample_libs sample_env (sample_db ''user'') (with_body []) =
     \<lparr>status = 200, json = JObj [(''user'', JNull)], set_cookie = []\<rparr>"
    by (simp add: me_def with_body_def falsy_def)
  then show ?thesis
    using me_always_200
            [where L = sample_libs and e = sample_env and d = "sample_db ''user''"
               and req = "with_cookie ''expired''" and t = "''expired''"]
          me_always_200
            [where L = sample_libs and e = sample_env and d = "sample_db ''user''"
               and req = "with_cookie ''tok-gone''" and t = "''tok-gone''"
               and p = "JObj [(''uid'', JStr ''z9''), (''role'', JStr ''admin''),
                              (''username'', JStr ''zed'')]"]
    by (simp add: sample_token sample_secret sample_verify sample_lookup_gone)
qed

text \<open>
  C8. POST /auth/logout answers 200 \<open>{ok: true}\<close> and clears the session cookie, for
  every request, with or without a session cookie; the handler registered in app.js and
  the one of routes/auth.js answer alike. A client that logs out twice gets the same
  response both times and ends with the cookies it had after the first logout, the
  session cookie not among them.
\<close>

theorem logout_idempotent:
  "logout e req =
     \<lparr>status = 200, json = JObj [(''ok'', JBool True)],
      set_cookie = [ClearCookie (COOKIE_NAME e) ''/'']\<rparr>
   \<and> app_logout e req = logout e req
   \<and> logout e req' = logout e req
   \<and> receive (logout e req') (receive (logout e req) jar) = receive (logout e req) jar
   \<and> receive (logout e req) jar (COOKIE_NAME e, ''/'') = None"
  by (simp add: logout_def app_logout_def receive_def)

text \<open>
  C9. The options of the session cookie are: httpOnly true; secure exactly when
  \<open>NODE_ENV\<close> is production; sameSite None in production and Lax otherwise; maxAge
  the configured \<open>COOKIE_MAX_AGE\<close>; path "/". Every cookie that login writes is the
  session cookie with these options, and a successful login writes exactly one.
\<close>

theorem session_cookie_attributes:
  "httpOnly (cookieOptions e)
   \<and> (secure (cookieOptions e) \<longleftrightarrow> env_NODE_ENV e = Some ''production'')
   \<and> sameSite (cookieOptions e) =
        (if env_NODE_ENV e = Some ''production'' then ''None'' else ''Lax'')
   \<and> maxAge (cookieOptions e) = COOKIE_MAX_AGE e
   \<and> path (cookieOptions e) = ''/''
   \<and> (\<forall>c \<in> set (set_cookie (login L e d req)).
         \<exists>token. c = SetCookie (COOKIE_NAME e) token (cookieOptions e))
   \<and> (status (login L e d req) = 200 \<longrightarrow>
         (\<exists>token. set_cookie (login L e d req) =
            [SetCookie (COOKIE_NAME e) token (cookieOptions e)]))"
proof -
  have opts:
    "httpOnly (cookieOptions e)"
    "secure (cookieOptions e) \<longleftrightarrow> env_NODE_ENV e = Some ''production''"
    "sameSite (cookieOptions e) =
       (if env_NODE_ENV e = Some ''production'' then ''None'' else ''Lax'')"
    "maxAge (cookieOptions e) = COOKIE_MAX_AGE e"
    "path (cookieOptions e) = ''/''"
    by (simp_all add: cookieOptions_def Let_def)
  have written:
    "set_cookie (login L e d req) = []
     \<or> (\<exists>token. set_cookie (login L e d req) =
            [SetCookie (COOKIE_NAME e) token (cookieOptions e)])"
    by (simp add: login_def Let_def js_not_def server_error_def
             split: sum.splits option.splits jsval.splits)
  have ok:
    "status (login L e d req) = 200 \<longrightarrow> set_cookie (login L e d req) \<noteq> []"
    by (simp add: login_def Let_def js_not_def server_error_def
             split: sum.splits option.splits jsval.splits)
  from written ok opts show ?thesis by auto
qed

theorem session_cookie_attributes_witness:
  "status (login sample_libs sample_env (sample_db ''user'')
       (with_body [(''email'', JStr ''a@x.com''), (''password'', JStr ''pw123'')])) = 200
   \<and> set_cookie (login sample_libs sample_env (sample_db ''user'')
       (with_body [(''email'', JStr ''a@x.com''), (''password'', JStr ''pw123'')])) =
       [SetCookie ''session'' ''tok-alice''
          \<lparr>httpOnly = True, secure = False, sameSite = ''Lax'',
           maxAge = Finite 86400000, path = ''/''\<rparr>]"
proof -
  have ok: "login sample_libs sample_env (sample_db ''user'')
       (with_body [(''email'', JStr ''a@x.com''), (''password'', JStr ''pw123'')]) =
     \<lparr>status = 200,
      json = JObj [(''user'', JObj [(''id'', JStr ''a1''), (''email'', JStr ''a@x.com''),
                                    (''username'', JStr ''alice''), (''role'', JStr ''user'')])],
      set_cookie = [SetCookie ''session'' ''tok-alice'' (cookieOptions sample_env)]\<rparr>"
    by (simp add: login_def Let_def js_not_def sample_body sample_findOne_alice alice_fields
          sample_compare sample_secret sample_sign sample_max_age)
  have "cookieOptions sample_env =
     \<lparr>httpOnly = True, secure = False, sameSite = ''Lax'',
      maxAge = Finite 86400000, path = ''/''\<rparr>"
    using session_cookie_attributes
            [where e = sample_env and L = sample_libs and d = "sample_db ''user''"
               and req = "with_body [(''email'', JStr ''a@x.com''),
                                     (''password'', JStr ''pw123'')]"]
    by (cases "cookieOptions sample_env") (simp add: sample_env_def COOKIE_MAX_AGE_def)
  with ok show ?thesis by simp
qed

section \<open>Signup\<close>

text \<open>
  C7. The claim is that a signup with all four fields and an unused email stores the
  account with a hashed password and answers 201 with the account's safe projection.
  On the code, POST /auth/signup never changes the collection and answers 400 or 500 only:
  the document it builds has no \<open>company\<close>, which the schema requires, so \<open>save()\<close>
  rejects it and the handler's catch block answers 500 "Server error". The last conjunct
  evaluates the handler on the signup of alice into an empty, reachable store.
\<close>

theorem signup_never_creates:
  "snd (signup L d salt oid now req) = d
   \<and> (status (fst (signup L d salt oid now req)) = 400
        \<or> status (fst (signup L d salt oid now req)) = 500)
   \<and> signup sample_libs \<lparr>users = [], online = True\<rparr> ''s$'' ''b2'' 0
        (with_body [(''email'', JStr ''a@x.com''), (''username'', JStr ''alice''),
                    (''password'', JStr ''pw123''), (''mobile'', JStr ''555'')]) =
       (\<lparr>status = 500, json = error_json ''Server error'', set_cookie = []\<rparr>,
        \<lparr>users = [], online = True\<rparr>)"
proof -
  have "snd (signup L d salt oid now req) = d"
    by (simp add: signup_def Let_def js_not_def save_invalid signup_user_invalid
             split: sum.splits option.splits jsval.splits)
  moreover
  have "status (fst (signup L d salt oid now req)) = 400
        \<or> status (fst (signup L d salt oid now req)) = 500"
    by (simp add: signup_def Let_def js_not_def save_invalid signup_user_invalid server_error_def
             split: sum.splits option.splits jsval.splits)
  moreover
  have "signup sample_libs \<lparr>users = [], online = True\<rparr> ''s$'' ''b2'' 0
        (with_body [(''email'', JStr ''a@x.com''), (''username'', JStr ''alice''),
                    (''password'', JStr ''pw123''), (''mobile'', JStr ''555'')]) =
       (\<lparr>status = 500, json = error_json ''Server error'', set_cookie = []\<rparr>,
        \<lparr>users = [], online = True\<rparr>)"
    by (simp add: signup_def Let_def js_not_def save_invalid signup_user_invalid sample_body
          sample_findOne_empty server_error_def)
  ultimately show ?thesis by simp
qed

text \<open>
  C10. The signup handler reads email, username, password and mobile only: two requests
  that agree on these four fields, whatever else their bodies hold (a \<open>role\<close> field, for
  one), build the same document and get the same response and collection. The document
  has the schema's default role user, and it is the only document that signup can add to
  the collection. The document that the admin-gated POST /users builds takes the role of
  the request body when that is a non-empty string (and what mongoose casts any other
  truthy value to), and the default when the body has no role or a falsy one.
\<close>

theorem signup_ignores_role:
  assumes "map_of (body r1) ''email'' = map_of (body r2) ''email''"
    and "map_of (body r1) ''username'' = map_of (body r2) ''username''"
    and "map_of (body r1) ''password'' = map_of (body r2) ''password''"
    and "map_of (body r1) ''mobile'' = map_of (body r2) ''mobile''"
  shows "signup L d salt oid now r1 = signup L d salt oid now r2
         \<and> signup_user L salt oid now r1 = signup_user L salt oid now r2
         \<and> get (signup_user L salt oid now r1) ''role'' = JStr ''user''
         \<and> (users (snd (signup L d salt oid now r1)) = users d
             \<or> users (snd (signup L d salt oid now r1)) =
                 users d @ [signup_user L salt oid now r1])
         \<and> get (create_user_doc L salt oid now r1) ''role'' =
             (if \<not> truthy (body_field r1 ''role'') then JStr ''user''
              else case body_field r1 ''role'' of
                     JStr s \<Rightarrow> JStr s
                   | v \<Rightarrow> (case castString L v of None \<Rightarrow> JStr ''user'' | Some c \<Rightarrow> c))"
proof -
  have fields:
    "body_field r1 ''email'' = body_field r2 ''email''"
    "body_field r1 ''username'' = body_field r2 ''username''"
    "body_field r1 ''password'' = body_field r2 ''password''"
    "body_field r1 ''mobile'' = body_field r2 ''mobile''"
    using assms by (simp_all add: body_field_def)
  have doc: "signup_user L salt oid now r1 = signup_user L salt oid now r2"
    unfolding signup_user_def fields ..
  have "signup L d salt oid now r1 = signup L d salt oid now r2"
    unfolding signup_def fields doc ..
  moreover
  have "get (signup_user L salt oid now r1) ''role'' = JStr ''user''"
    by (simp add: signup_user_def Let_def new_User_role_default)
  moreover
  have "users (snd (signup L d salt oid now r1)) = users d
        \<or> users (snd (signup L d salt oid now r1)) = users d @ [signup_user L salt oid now r1]"
    by (auto simp: signup_def Let_def js_not_def save_def
             split: sum.splits option.splits jsval.splits if_splits)
  moreover
  have "get (create_user_doc L salt oid now r1) ''role'' =
             (if \<not> truthy (body_field r1 ''role'') then JStr ''user''
              else case body_field r1 ''role'' of
                     JStr s \<Rightarrow> JStr s
                   | v \<Rightarrow> (case castString L v of None \<Rightarrow> JStr ''user'' | Some c \<Rightarrow> c))"
    by (cases "body_field r1 ''role''")
       (simp_all add: create_user_doc_def Let_def new_User_role_string new_User_role_cast
          split: option.splits)
  ultimately show ?thesis using doc by simp
qed

theorem signup_ignores_role_witness:
  "signup sample_libs (sample_db ''user'') ''s$'' ''b2'' 0
       (with_body [(''email'', JStr ''b@x.com''), (''username'', JStr ''bob''),
                   (''password'', JStr ''pw456''), (''mobile'', JStr ''777''),
                   (''role'', JStr ''admin'')]) =
     signup sample_libs (sample_db ''user'') ''s$'' ''b2'' 0
       (with_body [(''email'', JStr ''b@x.com''), (''username'', JStr ''bob''),
                   (''password'', JStr ''pw456''), (''mobile'', JStr ''777'')])
   \<and> get (signup_user sample_libs ''s$'' ''b2'' 0
       (with_body [(''email'', JStr ''b@x.com''), (''username'', JStr ''bob''),
                   (''password'', JStr ''pw456''), (''mobile'', JStr ''777''),
                   (''role'', JStr ''admin'')])) ''role'' = JStr ''user''
   \<and> get (create_user_doc sample_libs ''s$'' ''b2'' 0
       (with_body [(''email'', JStr ''b@x.com''), (''username'', JStr ''bob''),
                   (''password'', JStr ''pw456''), (''mobile'', JStr ''777''),
                   (''role'', JStr ''admin'')])) ''role'' = JStr ''admin''"
  using signup_ignores_role
          [where L = sample_libs and d = "sample_db ''user''" and salt = "''s$''"
             and oid = "''b2''" and now = 0
             and ?r1.0 = "with_body [(''email'', JStr ''b@x.com''), (''username'', JStr ''bob''),
                   (''password'', JStr ''pw456''), (''mobile'', JStr ''777''),
                   (''role'', JStr ''admin'')]"
             and ?r2.0 = "with_body [(''email'', JStr ''b@x.com''), (''username'', JStr ''bob''),
                   (''password'', JStr ''pw456''), (''mobile'', JStr ''777'')]"]
  by (auto simp: sample_body sample_members)

end
